theory Spec2Isabelle
  imports Complex_Main "HOL-Library.Multiset" "HOL-Library.Char_ord"
    "HOL-Library.List_Lexorder" "HOL-Library.Product_Lexorder" "HOL-Library.Sublist"
begin

section \<open>Numbers, text and dictionaries of the Python source\<close>

text \<open>
  The metric calculators (\<^verbatim>\<open>analysis.py\<close>) and the insight generator
  (\<^verbatim>\<open>insightGenerator.py\<close>) compute with Python integers and with binary floating
  point numbers of pandas and numpy. Integers are \<^typ>\<open>int\<close>. A float is an exact rational
  or one of the three special values a pandas division produces: rounding to 53 bits and the
  sign of zero are not modelled, the special values and their arithmetic are.
\<close>

datatype xnum = Fin rat | PInf | NInf | NaN

fun xneg :: "xnum \<Rightarrow> xnum" where
  "xneg (Fin a) = Fin (- a)"
| "xneg PInf = NInf"
| "xneg NInf = PInf"
| "xneg NaN = NaN"

fun xadd :: "xnum \<Rightarrow> xnum \<Rightarrow> xnum" where
  "xadd NaN _ = NaN"
| "xadd _ NaN = NaN"
| "xadd (Fin a) (Fin b) = Fin (a + b)"
| "xadd PInf NInf = NaN"
| "xadd NInf PInf = NaN"
| "xadd PInf _ = PInf"
| "xadd _ PInf = PInf"
| "xadd NInf _ = NInf"
| "xadd _ NInf = NInf"

definition xsub :: "xnum \<Rightarrow> xnum \<Rightarrow> xnum" where
  "xsub a b = xadd a (xneg b)"

text \<open>The sign of a number: 1, 0 or -1; \<open>NaN\<close> has none.\<close>

fun xsgn :: "xnum \<Rightarrow> int option" where
  "xsgn (Fin a) = Some (if a > 0 then 1 else if a < 0 then -1 else 0)"
| "xsgn PInf = Some 1"
| "xsgn NInf = Some (-1)"
| "xsgn NaN = None"

definition inf_of_sign :: "int \<Rightarrow> xnum" where
  "inf_of_sign s = (if s = 0 then NaN else if s > 0 then PInf else NInf)"

fun xmul :: "xnum \<Rightarrow> xnum \<Rightarrow> xnum" where
  "xmul (Fin a) (Fin b) = Fin (a * b)"
| "xmul a b = (case (xsgn a, xsgn b) of
       (Some s, Some t) \<Rightarrow> inf_of_sign (s * t)
     | _ \<Rightarrow> NaN)"

text \<open>
  Division as numpy does it on float arrays: a finite number over zero is an infinity of
  the sign of the numerator, zero over zero is \<open>NaN\<close>, and nothing is raised.
\<close>

fun xdiv :: "xnum \<Rightarrow> xnum \<Rightarrow> xnum" where
  "xdiv NaN _ = NaN"
| "xdiv _ NaN = NaN"
| "xdiv (Fin a) (Fin b) =
     (if b = 0 then (if a = 0 then NaN else if a > 0 then PInf else NInf) else Fin (a / b))"
| "xdiv (Fin a) _ = Fin 0"
| "xdiv PInf (Fin b) = (if b < 0 then NInf else PInf)"
| "xdiv NInf (Fin b) = (if b < 0 then PInf else NInf)"
| "xdiv _ _ = NaN"

text \<open>Comparisons: every comparison with \<open>NaN\<close> is false.\<close>

fun xlt :: "xnum \<Rightarrow> xnum \<Rightarrow> bool" where
  "xlt NaN _ = False"
| "xlt _ NaN = False"
| "xlt (Fin a) (Fin b) = (a < b)"
| "xlt _ NInf = False"
| "xlt NInf _ = True"
| "xlt PInf _ = False"
| "xlt _ PInf = True"

definition xgt :: "xnum \<Rightarrow> xnum \<Rightarrow> bool" where
  "xgt a b = xlt b a"

definition is_nan :: "xnum \<Rightarrow> bool" where
  "is_nan a = (case a of NaN \<Rightarrow> True | _ \<Rightarrow> False)"

definition of_py_int :: "int \<Rightarrow> xnum" where
  "of_py_int n = Fin (of_int n)"

text \<open>Truth value of a float in a condition: everything but zero, \<open>NaN\<close> included.\<close>

definition xtruthy :: "xnum \<Rightarrow> bool" where
  "xtruthy a = (a \<noteq> Fin 0)"

subsection \<open>Series reductions of pandas and numpy\<close>

text \<open>
  \<^verbatim>\<open>Series.sum\<close>, \<^verbatim>\<open>mean\<close>, \<^verbatim>\<open>max\<close> and \<^verbatim>\<open>min\<close> skip \<open>NaN\<close>; the
  sum of nothing is 0, the mean, maximum and minimum of nothing are \<open>NaN\<close>.
  \<^verbatim>\<open>np.sum\<close> and \<^verbatim>\<open>np.mean\<close> skip nothing.
\<close>

definition dropna :: "xnum list \<Rightarrow> xnum list" where
  "dropna xs = filter (\<lambda>x. \<not> is_nan x) xs"

definition np_sum :: "xnum list \<Rightarrow> xnum" where
  "np_sum xs = foldl xadd (Fin 0) xs"

definition pd_sum :: "xnum list \<Rightarrow> xnum" where
  "pd_sum xs = np_sum (dropna xs)"

definition np_mean :: "xnum list \<Rightarrow> xnum" where
  "np_mean xs = xdiv (np_sum xs) (Fin (of_nat (length xs)))"


definition xmax :: "xnum \<Rightarrow> xnum \<Rightarrow> xnum" where
  "xmax a b = (if xlt a b then b else a)"


definition pd_max :: "xnum list \<Rightarrow> xnum" where
  "pd_max xs = (case dropna xs of [] \<Rightarrow> NaN | y # ys \<Rightarrow> foldl xmax y ys)"



text \<open>
  Sorting of floats: \<^verbatim>\<open>np.sort\<close> is ascending with \<open>NaN\<close> last; \<^verbatim>\<open>nlargest\<close>
  drops \<open>NaN\<close> and keeps the first of equal values first.
\<close>

fun xinsert_asc :: "xnum \<Rightarrow> xnum list \<Rightarrow> xnum list" where
  "xinsert_asc x [] = [x]"
| "xinsert_asc x (y # ys) = (if xlt y x \<or> y = x then y # xinsert_asc x ys else x # y # ys)"

definition np_sort :: "xnum list \<Rightarrow> xnum list" where
  "np_sort xs = foldr xinsert_asc (dropna xs) [] @ filter is_nan xs"

fun xinsert_desc :: "xnum \<Rightarrow> xnum list \<Rightarrow> xnum list" where
  "xinsert_desc x [] = [x]"
| "xinsert_desc x (y # ys) = (if xlt y x then x # y # ys else y # xinsert_desc x ys)"

definition nlargest :: "nat \<Rightarrow> xnum list \<Rightarrow> xnum list" where
  "nlargest n xs = take n (foldl (\<lambda>acc x. xinsert_desc x acc) [] (dropna xs))"

subsection \<open>Text\<close>

definition digit_char :: "nat \<Rightarrow> char" where
  "digit_char d = ''0123456789'' ! (d mod 10)"

fun show_nat :: "nat \<Rightarrow> string" where
  "show_nat n = (if n < 10 then [digit_char n] else show_nat (n div 10) @ [digit_char n])"

declare show_nat.simps [simp del]

definition show_int :: "int \<Rightarrow> string" where
  "show_int i = (if i < 0 then ''-'' @ show_nat (nat (- i)) else show_nat (nat i))"

text \<open>The format \<^verbatim>\<open>{n:,}\<close> of an integer: digits in groups of three.\<close>

fun comma_nat :: "nat \<Rightarrow> string" where
  "comma_nat n = (if n < 1000 then show_nat n
     else comma_nat (n div 1000) @ '','' @
       [digit_char (n div 100), digit_char (n div 10), digit_char n])"

declare comma_nat.simps [simp del]

definition fmt_comma :: "int \<Rightarrow> string" where
  "fmt_comma i = (if i < 0 then ''-'' @ comma_nat (nat (- i)) else comma_nat (nat i))"

text \<open>
  The format \<^verbatim>\<open>{x:.df}\<close> of a float: \<open>d\<close> digits after the point, the exact value
  rounded to the nearest, a tie to the even digit; the sign of a negative number stays when
  it rounds to zero.
\<close>

definition round_half_even :: "rat \<Rightarrow> nat" where
  "round_half_even s = (let f = \<lfloor>s\<rfloor>; d = s - of_int f in
     nat (if d < 1 / 2 then f else if d > 1 / 2 then f + 1 else if even f then f else f + 1))"

primrec frac_digits :: "nat \<Rightarrow> nat \<Rightarrow> string" where
  "frac_digits 0 m = []"
| "frac_digits (Suc d) m = frac_digits d (m div 10) @ [digit_char m]"

definition fmt_fixed :: "nat \<Rightarrow> xnum \<Rightarrow> string" where
  "fmt_fixed d x = (case x of
       NaN \<Rightarrow> ''nan''
     | PInf \<Rightarrow> ''inf''
     | NInf \<Rightarrow> ''-inf''
     | Fin r \<Rightarrow>
         (let q = round_half_even (\<bar>r\<bar> * 10 ^ d) in
          (if r < 0 then ''-'' else '''') @ show_nat (q div 10 ^ d) @
          (if d = 0 then '''' else ''.'' @ frac_digits d (q mod 10 ^ d))))"

text \<open>\<^verbatim>\<open>str.upper\<close> and \<^verbatim>\<open>str.lower\<close> on the ASCII letters.\<close>

definition upper_char :: "char \<Rightarrow> char" where
  "upper_char c = (let n = (of_char c :: nat) in if 97 \<le> n \<and> n \<le> 122 then char_of (n - 32) else c)"

definition lower_char :: "char \<Rightarrow> char" where
  "lower_char c = (let n = (of_char c :: nat) in if 65 \<le> n \<and> n \<le> 90 then char_of (n + 32) else c)"

definition upper :: "string \<Rightarrow> string" where
  "upper s = map upper_char s"

definition lower :: "string \<Rightarrow> string" where
  "lower s = map lower_char s"

text \<open>The test \<^verbatim>\<open>sub in s\<close> on strings.\<close>

fun contains :: "string \<Rightarrow> string \<Rightarrow> bool" where
  "contains [] sub = (sub = [])"
| "contains (c # cs) sub = (prefix sub (c # cs) \<or> contains cs sub)"

section \<open>Tabular datasets\<close>

text \<open>
  A dataset is a pandas \<^verbatim>\<open>DataFrame\<close>: named columns and an ordered collection of rows.
  A cell holds an integer (the counts of the enrollment extracts) or text, or is missing
  (\<^verbatim>\<open>NaN\<close>, \<^verbatim>\<open>NaT\<close>). A timestamp is held as its ISO text, which orders and prints as
  the timestamp does. Column names are distinct, as the CSV reader makes them, and every row
  has one cell per column.
\<close>

datatype cell = Num int | Str string

record dataframe =
  columns :: "string list"
  rows :: "cell option list list"

definition wf_dataframe :: "dataframe \<Rightarrow> bool" where
  "wf_dataframe df =
     (distinct (columns df) \<and> list_all (\<lambda>r. length r = length (columns df)) (rows df))"

fun index_of :: "'a list \<Rightarrow> 'a \<Rightarrow> nat" where
  "index_of [] x = 0"
| "index_of (y # ys) x = (if x = y then 0 else Suc (index_of ys x))"

definition cell_at :: "cell option list \<Rightarrow> nat \<Rightarrow> cell option" where
  "cell_at r j = (if j < length r then r ! j else None)"

text \<open>\<^verbatim>\<open>df[col]\<close>: the cells of one column, in row order.\<close>

definition column :: "dataframe \<Rightarrow> string \<Rightarrow> cell option list" where
  "column df c = map (\<lambda>r. cell_at r (index_of (columns df) c)) (rows df)"

text \<open>
  A column read from a file is numeric or text. Summing skips missing cells; the sum of a
  numeric column is an integer, and of nothing it is 0.
\<close>

definition is_text :: "cell option \<Rightarrow> bool" where
  "is_text v = (case v of Some (Str _) \<Rightarrow> True | _ \<Rightarrow> False)"

definition is_numeric :: "cell option list \<Rightarrow> bool" where
  "is_numeric vs = (filter is_text vs = [])"

definition num_val :: "cell option \<Rightarrow> int" where
  "num_val v = (case v of Some (Num n) \<Rightarrow> n | _ \<Rightarrow> 0)"


text \<open>The text \<^verbatim>\<open>str(x)\<close> of a label.\<close>

definition py_str :: "cell \<Rightarrow> string" where
  "py_str c = (case c of Num n \<Rightarrow> show_int n | Str s \<Rightarrow> s)"

subsection \<open>Grouping\<close>

text \<open>
  \<^verbatim>\<open>df.groupby(k)[v].sum()\<close>: rows with a missing key are dropped, the groups come in
  ascending key order (numbers before text where both occur), and each group sums its
  present values.
\<close>

definition cell_key :: "cell \<Rightarrow> bool \<times> int \<times> string" where
  "cell_key c = (case c of Num n \<Rightarrow> (False, n, []) | Str s \<Rightarrow> (True, 0, s))"

instantiation cell :: linorder
begin

definition less_eq_cell :: "cell \<Rightarrow> cell \<Rightarrow> bool" where
  "less_eq_cell a b = (cell_key a \<le> cell_key b)"

definition less_cell :: "cell \<Rightarrow> cell \<Rightarrow> bool" where
  "less_cell a b = (cell_key a < cell_key b)"

instance
proof
  fix x y z :: cell
  show "(x < y) = (x \<le> y \<and> \<not> y \<le> x)"
    by (auto simp: less_eq_cell_def less_cell_def)
  show "x \<le> x"
    by (simp add: less_eq_cell_def)
  show "x \<le> y \<Longrightarrow> y \<le> z \<Longrightarrow> x \<le> z"
    by (simp add: less_eq_cell_def)
  show "x \<le> y \<Longrightarrow> y \<le> x \<Longrightarrow> x = y"
    by (cases x; cases y) (auto simp: less_eq_cell_def cell_key_def)
  show "x \<le> y \<or> y \<le> x"
    by (auto simp: less_eq_cell_def)
qed

end

definition group_keys :: "(cell option \<times> cell option) list \<Rightarrow> cell list" where
  "group_keys ps = sort (remdups (map the (filter (\<lambda>k. k \<noteq> None) (map fst ps))))"

definition group_total :: "(cell option \<times> cell option) list \<Rightarrow> cell \<Rightarrow> int" where
  "group_total ps k = sum_list (map (\<lambda>p. num_val (snd p)) (filter (\<lambda>p. fst p = Some k) ps))"

definition groupby_sum :: "(cell option \<times> cell option) list \<Rightarrow> (cell \<times> int) list" where
  "groupby_sum ps = map (\<lambda>k. (k, group_total ps k)) (group_keys ps)"

definition key_value_rows :: "dataframe \<Rightarrow> string \<Rightarrow> string \<Rightarrow> (cell option \<times> cell option) list" where
  "key_value_rows df k v = zip (column df k) (column df v)"


text \<open>
  The first entry with the greatest value, as \<^verbatim>\<open>idxmax\<close> and Python's \<^verbatim>\<open>max\<close>
  return it: a later entry replaces the best one only when it is strictly greater.
\<close>

fun first_max :: "('v \<Rightarrow> 'v \<Rightarrow> bool) \<Rightarrow> 'k \<times> 'v \<Rightarrow> ('k \<times> 'v) list \<Rightarrow> 'k \<times> 'v" where
  "first_max lt b [] = b"
| "first_max lt b (p # ps) = first_max lt (if lt (snd b) (snd p) then p else b) ps"

datatype py_exception = TypeError | ValueError | ZeroDivisionError

section \<open>Metric calculators\<close>

text \<open>
  Every calculator returns a dictionary. A dictionary with known keys is a record of optional
  fields, a key that is absent being \<open>None\<close>, so that the empty dictionary \<^verbatim>\<open>{}\<close> is the
  record with no field set. The body of a \<^verbatim>\<open>try\<close> block returns the exception it
  raises or its result, and the calculator turns the exception into the dictionary of its
  \<^verbatim>\<open>except\<close> clause.
\<close>

subsection \<open>Column resolution\<close>



definition find_state_column :: "dataframe \<Rightarrow> string option" where
  "find_state_column df = find (\<lambda>col. contains (lower col) ''state'') (columns df)"

definition find_enrollment_column :: "dataframe \<Rightarrow> string option" where
  "find_enrollment_column df = find (\<lambda>col. contains (lower col) ''total'') (columns df)"


subsection \<open>Temporal metrics\<close>

record weekly_stats =
  avg_weekly :: "int option"
  weekly_variance :: "xnum option"

record temporal_metrics =
  avg_growth_rate :: "xnum option"
  peak_growth_rate :: "xnum option"
  lowest_growth_rate :: "xnum option"
  trend_direction :: "string option"
  peak_day :: "cell option option"
  peak_count :: "int option"
  total_records :: "int option"
  error :: "py_exception option"
  weekly_stats :: "weekly_stats option"

definition empty_temporal :: temporal_metrics where
  "empty_temporal = \<lparr>avg_growth_rate = None, peak_growth_rate = None,
     lowest_growth_rate = None, trend_direction = None, peak_day = None, peak_count = None,
     total_records = None, error = None, weekly_stats = None\<rparr>"







subsection \<open>Geographic metrics\<close>

record geographic_metrics =
  herfindahl_index :: "xnum option"
  gini_coefficient :: "xnum option"
  top_state :: "cell option"
  top_state_percentage :: "xnum option"
  top_5_states_share :: "xnum option"
  top_10_states_share :: "xnum option"
  num_states :: "int option"
  concentration_level :: "string option"

definition empty_geographic :: geographic_metrics where
  "empty_geographic = \<lparr>herfindahl_index = None, gini_coefficient = None, top_state = None,
     top_state_percentage = None, top_5_states_share = None, top_10_states_share = None,
     num_states = None, concentration_level = None\<rparr>"

definition state_shares :: "(cell \<times> int) list \<Rightarrow> xnum list" where
  "state_shares state_data =
     (let grand_total = sum_list (map snd state_data) in
      map (\<lambda>p. xmul (xdiv (of_py_int (snd p)) (of_py_int grand_total)) (Fin 100)) state_data)"

definition herfindahl :: "xnum list \<Rightarrow> xnum" where
  "herfindahl shares = pd_sum (map (\<lambda>s. xmul s s) shares)"

definition gini :: "xnum list \<Rightarrow> xnum" where
  "gini shares =
     (let sorted_shares = np_sort shares; n = length sorted_shares in
      xsub (xdiv (xmul (Fin 2)
                    (np_sum (map (\<lambda>(i, s). xmul (Fin (of_nat i)) s) (zip [1..<n + 1] sorted_shares))))
                 (xmul (Fin (of_nat n)) (np_sum sorted_shares)))
           (Fin (of_nat (n + 1) / of_nat n)))"

definition level_of :: "xnum \<Rightarrow> string" where
  "level_of hhi = (if xgt hhi (Fin 2500) then ''High'' else if xgt hhi (Fin 2000) then ''Moderate'' else ''Low'')"

text \<open>
  The exceptions of the body: a text column cannot be divided; with no state at all the
  integer division \<^verbatim>\<open>(n + 1) / n\<close> is by zero; \<^verbatim>\<open>idxmax\<close> has no answer when every
  share is \<open>NaN\<close> (an error in pandas 3, which the model follows; earlier versions warn).
\<close>

definition concentration_body :: "dataframe \<Rightarrow> string \<Rightarrow> string \<Rightarrow> py_exception + geographic_metrics" where
  "concentration_body df state_col enrol_col =
     (let state_data = groupby_sum (key_value_rows df state_col enrol_col);
          shares = state_shares state_data;
          hhi = herfindahl shares;
          n = length shares
      in
      if \<not> is_numeric (column df enrol_col) then Inl TypeError
      else if n = 0 then Inl ZeroDivisionError
      else
        (case filter (\<lambda>p. \<not> is_nan (snd p)) (zip (map fst state_data) shares) of
           [] \<Rightarrow> Inl ValueError
         | p # ps \<Rightarrow>
             Inr \<lparr>herfindahl_index = Some hhi,
                  gini_coefficient = Some (gini shares),
                  top_state = Some (fst (first_max xlt p ps)),
                  top_state_percentage = Some (pd_max shares),
                  top_5_states_share = Some (pd_sum (nlargest 5 shares)),
                  top_10_states_share = Some (pd_sum (nlargest 10 shares)),
                  num_states = Some (int (length state_data)),
                  concentration_level = Some (level_of hhi)\<rparr>))"

definition calculate_concentration :: "dataframe \<Rightarrow> geographic_metrics" where
  "calculate_concentration df =
     (case (find_state_column df, find_enrollment_column df) of
        (Some state_col, Some enrol_col) \<Rightarrow>
          (case concentration_body df state_col enrol_col of
             Inl e \<Rightarrow> empty_geographic
           | Inr m \<Rightarrow> m)
      | _ \<Rightarrow> empty_geographic)"

subsection \<open>Demographic metrics\<close>

text \<open>
  The entropy of the age buckets is a natural logarithm computed in floating point; it is
  not part of the model, and the insight generator does not read it. The key
  \<^verbatim>\<open>gender_distribution\<close> is the one of \<^verbatim>\<open>analyze_gender_distribution\<close> that the
  insight generator looks for in the same dictionary.
\<close>

record demographic_metrics =
  age_diversity_index :: "xnum option"
  dominant_age :: "string option"
  dominant_age_percentage :: "xnum option"
  age_groups :: "(string \<times> xnum) list option"
  age_totals :: "(string \<times> int) list option"
  gender_distribution :: "(string \<times> int) list option"

definition empty_demographic :: demographic_metrics where
  "empty_demographic = \<lparr>age_diversity_index = None, dominant_age = None,
     dominant_age_percentage = None, age_groups = None, age_totals = None,
     gender_distribution = None\<rparr>"





subsection \<open>Data quality metrics\<close>

record completeness_metrics =
  overall_completeness :: "xnum option"
  column_completeness :: "(string \<times> xnum) list option"
  null_percentage :: "xnum option"

text \<open>\<^verbatim>\<open>df.count()\<close>: the number of cells of a column that are not missing.\<close>

definition count_present :: "cell option list \<Rightarrow> nat" where
  "count_present vs = length (filter (\<lambda>v. v \<noteq> None) vs)"

definition calculate_completeness :: "dataframe \<Rightarrow> completeness_metrics" where
  "calculate_completeness df =
     (let total_cells = length (rows df) * length (columns df);
          non_null_cells = sum_list (map (\<lambda>col. count_present (column df col)) (columns df));
          completeness =
            (if total_cells > 0 then Fin (of_nat non_null_cells / of_nat total_cells * 100)
             else Fin 0)
      in \<lparr>overall_completeness = Some completeness,
          column_completeness = Some (map (\<lambda>col. (col,
             xmul (xdiv (Fin (of_nat (count_present (column df col))))
                        (Fin (of_nat (length (rows df))))) (Fin 100))) (columns df)),
          null_percentage = Some (xsub (Fin 100) completeness)\<rparr>)"

section \<open>Insight generator\<close>

subsection \<open>The analysis results\<close>

text \<open>
  The generator is built from one dictionary that maps the name of a metric family to the
  dictionary of that family. It reads the three families above and four more, of which it
  uses the keys below.
\<close>

record issues =
  total_issues :: "int option"
  duplicate_records :: "int option"

record quality_metrics =
  overall_completeness :: "xnum option"
  issues :: "issues option"
  total_records :: "int option"

text \<open>
  The biometric family maps a column to its coverage dictionary (\<^verbatim>\<open>count\<close> and
  \<^verbatim>\<open>percentage\<close>); a value that is not a dictionary is passed over.
\<close>

datatype bio_value = Coverage "int option" "xnum option" | NotADict

record update_metrics =
  biometric_to_enrol_ratio :: "xnum option"
  demographic_to_enrol_ratio :: "xnum option"

record trend_metrics =
  volatility_level :: "string option"

record analysis_results =
  temporal_metrics :: "temporal_metrics option"
  geographic_metrics :: "geographic_metrics option"
  demographic_metrics :: "demographic_metrics option"
  quality_metrics :: "quality_metrics option"
  biometric_metrics :: "(string \<times> bio_value) list option"
  update_metrics :: "update_metrics option"
  trend_metrics :: "trend_metrics option"

definition empty_results :: analysis_results where
  "empty_results = \<lparr>temporal_metrics = None, geographic_metrics = None,
     demographic_metrics = None, quality_metrics = None, biometric_metrics = None,
     update_metrics = None, trend_metrics = None\<rparr>"

definition empty_quality :: quality_metrics where
  "empty_quality = \<lparr>overall_completeness = None, issues = None, total_records = None\<rparr>"

definition empty_issues :: issues where
  "empty_issues = \<lparr>total_issues = None, duplicate_records = None\<rparr>"

definition empty_weekly :: weekly_stats where
  "empty_weekly = \<lparr>avg_weekly = None, weekly_variance = None\<rparr>"

definition empty_update :: update_metrics where
  "empty_update = \<lparr>biometric_to_enrol_ratio = None, demographic_to_enrol_ratio = None\<rparr>"

definition empty_trend :: trend_metrics where
  "empty_trend = \<lparr>volatility_level = None\<rparr>"

text \<open>\<^verbatim>\<open>d.get(key, default)\<close> on an optional field.\<close>

definition py_get :: "'a option \<Rightarrow> 'a \<Rightarrow> 'a" where
  "py_get field dflt = (case field of None \<Rightarrow> dflt | Some v \<Rightarrow> v)"

subsection \<open>Insight records\<close>

text \<open>
  An insight is a dictionary from the six keys \<^verbatim>\<open>title\<close>, \<^verbatim>\<open>message\<close>,
  \<^verbatim>\<open>details\<close>, \<^verbatim>\<open>action\<close>, \<^verbatim>\<open>severity\<close> and \<^verbatim>\<open>type\<close> to text, kept as the
  list of its items; the empty dictionary is the empty list.
\<close>

type_synonym insight = "(string \<times> string) list"

definition insight_get :: "insight \<Rightarrow> string \<Rightarrow> string option" where
  "insight_get i k = map_of i k"

subsection \<open>Temporal insights\<close>

definition generate_temporal_insight :: "analysis_results \<Rightarrow> insight" where
  "generate_temporal_insight results =
     (let temporal = py_get (temporal_metrics results) empty_temporal;
          growth = py_get (avg_growth_rate temporal) (Fin 0);
          trend = py_get (trend_direction temporal) ''stable'';
          peak_count' = py_get (peak_count temporal) 0
      in
      if xgt growth (Fin 20) then
        [(''title'', ''EXCEPTIONAL GROWTH - Accelerating Fast''),
         (''message'', ''The enrollment is growing at '' @ fmt_fixed 1 growth @
            ''% daily - this is outstanding! '' @
            ''It is experiencing rapid expansion with peak day reaching '' @
            fmt_comma peak_count' @ '' enrollments. '' @
            ''Trend: '' @ upper trend),
         (''details'', ''Growth above 20% daily indicates explosive expansion. This is exceptional and requires '' @
            ''infrastructure scaling to handle the volume.''),
         (''action'', ''Scale infrastructure immediately to handle increased volume''),
         (''severity'', ''positive''),
         (''type'', ''temporal'')]
      else if xgt growth (Fin 10) then
        [(''title'', ''STRONG GROWTH - On Track''),
         (''message'', ''Daily growth rate is '' @ fmt_fixed 1 growth @
            ''% - excellent performance! '' @
            ''This system is expanding well with consistent positive momentum. '' @
            ''Trend: '' @ upper trend),
         (''details'', ''Growth between 10-20% is strong and sustainable. The enrollment system is performing well.''),
         (''action'', ''Maintain momentum and continue monitoring capacity''),
         (''severity'', ''positive''),
         (''type'', ''temporal'')]
      else if xgt growth (Fin 5) then
        [(''title'', ''STEADY GROWTH - Healthy Progress''),
         (''message'', ''Enrollment is growing steadily at '' @ fmt_fixed 1 growth @
            ''% daily. '' @
            ''This is on track with consistent, healthy expansion. '' @
            ''Trend: '' @ upper trend),
         (''details'', ''5-10% daily growth is healthy and sustainable long-term.''),
         (''action'', ''Continue current strategy while planning for scaling''),
         (''severity'', ''info''),
         (''type'', ''temporal'')]
      else
        [(''title'', ''SLOW GROWTH - Needs Attention''),
         (''message'', ''Growth rate is '' @ fmt_fixed 1 growth @
            ''% daily - below target. '' @
            ''Trend: '' @ upper trend @ ''. The enrollment needs a boost.''),
         (''details'', ''Below 5% daily growth suggests the need for campaign improvements.''),
         (''action'', ''Review marketing campaigns and identify growth barriers''),
         (''severity'', ''warning''),
         (''type'', ''temporal'')])"

text \<open>
  The text of \<^verbatim>\<open>peak_day\<close>: \<^verbatim>\<open>N/A\<close> when the key is absent, \<^verbatim>\<open>None\<close> when the
  calculator stored no day, the label otherwise.
\<close>

definition generate_peak_activity_insight :: "analysis_results \<Rightarrow> insight" where
  "generate_peak_activity_insight results =
     (let temporal = py_get (temporal_metrics results) empty_temporal;
          peak_count' = py_get (peak_count temporal) 0;
          peak_day' = (case peak_day temporal of
                         None \<Rightarrow> ''N/A''
                       | Some None \<Rightarrow> ''None''
                       | Some (Some d) \<Rightarrow> py_str d)
      in
      [(''title'', ''PEAK ACTIVITY - The Busiest Day''),
       (''message'', ''The peak enrollment day recorded '' @ fmt_comma peak_count' @
          '' registrations on '' @ peak_day' @ ''. '' @
          ''This shows the system's maximum capacity and user interest level.''),
       (''details'', ''Understanding peak capacity helps with infrastructure planning and resource allocation.''),
       (''action'', ''Use peak day data to plan infrastructure and staffing''),
       (''severity'', ''info''),
       (''type'', ''temporal'')])"

definition generate_weekly_consistency_insight :: "analysis_results \<Rightarrow> insight" where
  "generate_weekly_consistency_insight results =
     (let temporal = py_get (temporal_metrics results) empty_temporal;
          weekly_stats' = py_get (weekly_stats temporal) empty_weekly;
          avg_weekly' = py_get (avg_weekly weekly_stats') 0;
          variance = py_get (weekly_variance weekly_stats') (Fin 0);
          cv = (if xtruthy variance \<and> avg_weekly' \<noteq> 0
                then xmul (xdiv variance (of_py_int avg_weekly')) (Fin 100)
                else Fin 0);
          (status, severity) =
            (if xlt cv (Fin 15) then (''Highly Consistent - Predictable patterns'', ''positive'')
             else if xlt cv (Fin 30) then (''Moderately Consistent - Some variation'', ''info'')
             else (''Highly Variable - Unpredictable patterns'', ''warning''))
      in
      [(''title'', ''WEEKLY PATTERNS - Predictability Check''),
       (''message'', ''Average weekly enrollment: '' @ fmt_comma avg_weekly' @ '' registrations. '' @
          ''Status: '' @ status @ ''. This tells how predictable the enrollment patterns are.''),
       (''details'', ''Low variation means you can forecast demand accurately. High variation requires flexible resources.''),
       (''action'', ''Plan staffing and resources based on consistency level''),
       (''severity'', severity),
       (''type'', ''temporal'')])"

subsection \<open>Geographic insights\<close>

definition generate_geographic_insight :: "analysis_results \<Rightarrow> insight" where
  "generate_geographic_insight results =
     (let geo = py_get (geographic_metrics results) empty_geographic;
          hhi = py_get (herfindahl_index geo) (Fin 0);
          top_state_pct = py_get (top_state_percentage geo) (Fin 0);
          top_state' = (case top_state geo of None \<Rightarrow> ''N/A'' | Some l \<Rightarrow> py_str l)
      in
      if xgt hhi (Fin 2500) then
        [(''title'', ''HIGH CONCENTRATION - Unbalanced Distribution''),
         (''message'', top_state' @ '' dominates with '' @ fmt_fixed 1 top_state_pct @
            ''% of all enrollments. '' @
            ''The enrollment is heavily concentrated in one region. This means most of the '' @
            ''users are from a specific area.''),
         (''details'', ''High concentration (HHI > 2500) indicates unbalanced geographic distribution. '' @
            ''This creates risk if that region experiences disruption.''),
         (''action'', ''Launch targeted campaigns in underserved regions''),
         (''severity'', ''warning''),
         (''type'', ''geographic'')]
      else if xgt hhi (Fin 2000) then
        [(''title'', ''MODERATE CONCENTRATION - Room for Growth''),
         (''message'', top_state' @ '' leads with '' @ fmt_fixed 1 top_state_pct @
            ''% of enrollments. '' @
            ''The distribution is somewhat unbalanced but manageable. '' @
            ''There's good opportunity for geographic expansion.''),
         (''details'', ''Moderate concentration suggests some regional imbalance but with diversification potential.''),
         (''action'', ''Focus on expanding in tier-2 and tier-3 cities''),
         (''severity'', ''info''),
         (''type'', ''geographic'')]
      else
        [(''title'', ''BALANCED DISTRIBUTION - Well Spread''),
         (''message'', ''Enrollments are well-distributed across regions. '' @
            ''Top state ('' @ top_state' @ '') has only '' @ fmt_fixed 1 top_state_pct @ ''%. '' @
            ''This excellent geographic diversity reduces regional risk.''),
         (''details'', ''Low concentration (HHI < 2000) indicates healthy geographic distribution.''),
         (''action'', ''Continue expanding in new regions''),
         (''severity'', ''positive''),
         (''type'', ''geographic'')])"

text \<open>India has 36 states and union territories.\<close>

definition generate_state_coverage_insight :: "analysis_results \<Rightarrow> insight" where
  "generate_state_coverage_insight results =
     (let geo = py_get (geographic_metrics results) empty_geographic;
          num_states' = py_get (num_states geo) 0;
          coverage_pct = Fin (of_int num_states' / 36 * 100);
          (status, severity) =
            (if num_states' \<ge> 30 then (''Excellent - Nearly complete coverage'', ''positive'')
             else if num_states' \<ge> 20 then (''Good - Significant coverage'', ''info'')
             else (''Limited - Room for expansion'', ''warning''))
      in
      [(''title'', ''GEOGRAPHIC COVERAGE - State Distribution''),
       (''message'', ''The service covers '' @ show_int num_states' @ '' states/UTs ('' @
          fmt_fixed 0 coverage_pct @ ''% of India). '' @
          ''Status: '' @ status @ ''. This shows the national reach.''),
       (''details'', ''Higher coverage means better national presence and reduced geographic risk.''),
       (''action'', (if num_states' < 36
                     then ''Plan expansion to reach remaining '' @ show_int (36 - num_states') @ '' regions''
                     else ''Maintain national coverage'')),
       (''severity'', severity),
       (''type'', ''geographic'')])"

subsection \<open>Demographic insights\<close>

definition generate_demographic_insight :: "analysis_results \<Rightarrow> insight" where
  "generate_demographic_insight results =
     (let demo = py_get (demographic_metrics results) empty_demographic;
          diversity = py_get (age_diversity_index demo) (Fin 0);
          dominant_pct = py_get (dominant_age_percentage demo) (Fin 0);
          dominant_age' = py_get (dominant_age demo) ''N/A''
      in
      if xgt diversity (Fin (8 / 10)) then
        [(''title'', ''EXCELLENT DIVERSITY - All Groups Well Represented''),
         (''message'', ''The enrollment is highly diverse across all age groups. '' @
            ''No single age group dominates (largest is '' @ fmt_fixed 1 dominant_pct @ ''%). '' @
            ''This indicates inclusive outreach and balanced participation.''),
         (''details'', ''High diversity (>0.8) means the service appeals to all demographics.''),
         (''action'', ''Maintain inclusive engagement strategies''),
         (''severity'', ''positive''),
         (''type'', ''demographic'')]
      else if xgt diversity (Fin (6 / 10)) then
        [(''title'', ''GOOD DIVERSITY - Balanced Participation''),
         (''message'', ''Most age groups are well-represented, though '' @ dominant_age' @ '' leads '' @
            ''with '' @ fmt_fixed 1 dominant_pct @ ''%. The enrollment is reasonably balanced.''),
         (''details'', ''Moderate diversity (0.6-0.8) shows balanced but not perfect representation.''),
         (''action'', ''Monitor underrepresented groups for equity''),
         (''severity'', ''info''),
         (''type'', ''demographic'')]
      else if xgt diversity (Fin (4 / 10)) then
        [(''title'', ''MODERATE SKEW - Some Groups Underrepresented''),
         (''message'', dominant_age' @ '' accounts for '' @ fmt_fixed 1 dominant_pct @ ''% of enrollments. '' @
            ''Other age groups are underrepresented. This needs attention.''),
         (''details'', ''Lower diversity suggests some demographic groups are not being reached.''),
         (''action'', ''Launch targeted outreach for underrepresented age groups''),
         (''severity'', ''warning''),
         (''type'', ''demographic'')]
      else
        [(''title'', ''CRITICAL SKEW - Severe Demographic Imbalance''),
         (''message'', dominant_age' @ '' dominates with '' @ fmt_fixed 1 dominant_pct @ ''% of enrollments. '' @
            ''Other demographic groups are significantly underrepresented. '' @
            ''This is a critical gap that needs immediate action.''),
         (''details'', ''Very low diversity indicates major demographic gaps in the service.''),
         (''action'', ''Launch immediate diversity and inclusion campaigns''),
         (''severity'', ''critical''),
         (''type'', ''demographic'')])"

text \<open>
  The genders are sorted by their count, the greatest first, equal counts staying in the
  order of the dictionary.
\<close>

definition generate_gender_insight :: "analysis_results \<Rightarrow> insight" where
  "generate_gender_insight results =
     (let demo = py_get (demographic_metrics results) empty_demographic;
          gender_dist = py_get (gender_distribution demo) []
      in
      if gender_dist = [] then []
      else
        (let sorted_gender = sort_key (\<lambda>x. - snd x) gender_dist;
             max_gender = hd sorted_gender;
             min_gender = last sorted_gender;
             ratio = (if snd min_gender > 0
                      then Fin (of_int (snd max_gender) / of_int (snd min_gender))
                      else Fin 0);
             (status, severity) =
               (if xlt ratio (Fin (12 / 10)) then (''Excellent - Nearly equal participation'', ''positive'')
                else if xlt ratio (Fin (15 / 10)) then (''Good - Fairly balanced'', ''info'')
                else (''Imbalanced - One gender dominates'', ''warning''))
         in
         [(''title'', ''GENDER BALANCE - Equality Check''),
          (''message'', ''Gender distribution ratio is '' @ fmt_fixed 2 ratio @ '':1 ('' @
             fst max_gender @ '' to '' @ fst min_gender @ ''). '' @
             ''Status: '' @ status @ ''. Aim for equal participation from all genders.''),
          (''details'', ''Balanced gender representation ensures inclusive service delivery.''),
          (''action'', ''If imbalanced, increase outreach to underrepresented gender''),
          (''severity'', severity),
          (''type'', ''demographic'')]))"

subsection \<open>Data quality insights\<close>

definition generate_quality_insight :: "analysis_results \<Rightarrow> insight" where
  "generate_quality_insight results =
     (let quality = py_get (quality_metrics results) empty_quality;
          completeness = py_get (quality_metrics.overall_completeness quality) (Fin 0);
          issues' = py_get (issues quality) empty_issues;
          total_issues' = py_get (total_issues issues') 0
      in
      if xgt completeness (Fin 97) then
        [(''title'', ''EXCELLENT DATA QUALITY - Premium Standard''),
         (''message'', ''Data completeness is '' @ fmt_fixed 1 completeness @
            ''%. The data is pristine with minimal issues. '' @
            ''This ensures reliable analysis and decision-making.''),
         (''details'', ''Excellent data quality (>97%) means high confidence in analytics.''),
         (''action'', ''Maintain current data collection standards''),
         (''severity'', ''positive''),
         (''type'', ''quality'')]
      else if xgt completeness (Fin 93) then
        [(''title'', ''GOOD DATA QUALITY - Reliable''),
         (''message'', ''Data completeness is '' @ fmt_fixed 1 completeness @
            ''%. Quality is good with minimal issues. '' @
            ''The data is reliable for analysis.''),
         (''details'', ''Good data quality (93-97%) is acceptable for most purposes.''),
         (''action'', ''Monitor and continue gradual improvements''),
         (''severity'', ''info''),
         (''type'', ''quality'')]
      else if xgt completeness (Fin 85) then
        [(''title'', ''MODERATE QUALITY - Needs Attention''),
         (''message'', ''Data completeness is '' @ fmt_fixed 1 completeness @ ''% with '' @
            fmt_comma total_issues' @ '' identified issues. '' @
            ''Quality needs improvement for reliable analysis.''),
         (''details'', ''Below 93% completeness means important data gaps exist.''),
         (''action'', ''Identify and fix data collection gaps systematically''),
         (''severity'', ''warning''),
         (''type'', ''quality'')]
      else
        [(''title'', ''POOR DATA QUALITY - Critical''),
         (''message'', ''Data completeness is only '' @ fmt_fixed 1 completeness @ ''% with '' @
            fmt_comma total_issues' @ '' critical issues. '' @
            ''Data quality is severely compromised.''),
         (''details'', ''Below 85% completeness severely impacts reliability.''),
         (''action'', ''Urgently review and fix data collection procedures''),
         (''severity'', ''critical''),
         (''type'', ''quality'')])"

definition generate_duplicates_insight :: "analysis_results \<Rightarrow> insight" where
  "generate_duplicates_insight results =
     (let quality = py_get (quality_metrics results) empty_quality;
          issues' = py_get (issues quality) empty_issues;
          duplicates = py_get (duplicate_records issues') 0;
          total_records' = py_get (quality_metrics.total_records quality) 1;
          dup_pct = (if total_records' > 0
                     then Fin (of_int duplicates / of_int total_records' * 100)
                     else Fin 0);
          (status, severity) =
            (if duplicates = 0 then (''Perfect - No duplicates'', ''positive'')
             else if xlt dup_pct (Fin (5 / 10)) then (''Acceptable - Minimal duplicates'', ''info'')
             else (''Concerning - Significant duplication'', ''warning''))
      in
      [(''title'', ''DUPLICATE RECORDS - Data Integrity Check''),
       (''message'', ''Found '' @ fmt_comma duplicates @ '' duplicate records ('' @
          fmt_fixed 2 dup_pct @ ''%). '' @
          ''Status: '' @ status @ ''. This affects data accuracy.''),
       (''details'', ''Duplicates can skew analysis results and inflate enrollment numbers.''),
       (''action'', ''Implement duplicate detection and removal procedures''),
       (''severity'', severity),
       (''type'', ''quality'')])"

subsection \<open>Biometric insights\<close>

fun bio_percentages :: "(string \<times> bio_value) list \<Rightarrow> xnum list" where
  "bio_percentages [] = []"
| "bio_percentages ((key, Coverage c p) # rest) = py_get p (Fin 0) # bio_percentages rest"
| "bio_percentages ((key, NotADict) # rest) = bio_percentages rest"

definition generate_biometric_insight :: "analysis_results \<Rightarrow> insight" where
  "generate_biometric_insight results =
     (let bio = py_get (biometric_metrics results) [] in
      if bio = [] then []
      else
        (let bio_ages = bio_percentages bio;
             avg_coverage = (if bio_ages \<noteq> [] then np_mean bio_ages else Fin 0);
             (status, severity) =
               (if xgt avg_coverage (Fin 90) then (''Excellent - High biometric collection'', ''positive'')
                else if xgt avg_coverage (Fin 70) then (''Good - Solid coverage'', ''info'')
                else (''Low - Needs improvement'', ''warning''))
         in
         [(''title'', ''BIOMETRIC COVERAGE - Fingerprint Enrollment''),
          (''message'', ''Biometric enrollment coverage is '' @ fmt_fixed 1 avg_coverage @ ''%. '' @
             ''Status: '' @ status @ ''. This shows fingerprint data collection rates.''),
          (''details'', ''Higher biometric coverage ensures better identity verification capability.''),
          (''action'', ''Increase biometric collection during enrollment''),
          (''severity'', severity),
          (''type'', ''biometric'')]))"

subsection \<open>Update insights\<close>

definition generate_update_insight :: "analysis_results \<Rightarrow> insight" where
  "generate_update_insight results =
     (let updates = py_get (update_metrics results) empty_update;
          bio_ratio = py_get (biometric_to_enrol_ratio updates) (Fin 0);
          demo_ratio = py_get (demographic_to_enrol_ratio updates) (Fin 0);
          total_update_ratio = xadd bio_ratio demo_ratio;
          (status, severity) =
            (if xgt total_update_ratio (Fin (5 / 10)) then (''High - Frequent updates'', ''positive'')
             else if xgt total_update_ratio (Fin (2 / 10)) then (''Moderate - Regular updates'', ''info'')
             else (''Low - Limited updates'', ''warning''))
      in
      [(''title'', ''UPDATE FREQUENCY - System Activity''),
       (''message'', ''Update-to-enrollment ratio is '' @ fmt_fixed 2 total_update_ratio @ ''. '' @
          ''Status: '' @ status @ ''. This shows how active users are updating their data.''),
       (''details'', ''Higher update ratios indicate engaged users maintaining accurate information.''),
       (''action'', ''Encourage regular data updates and maintenance''),
       (''severity'', severity),
       (''type'', ''update'')])"

subsection \<open>Trend insights\<close>

definition volatility_msg :: "(string \<times> string \<times> string) list" where
  "volatility_msg =
     [(''High'', (''Highly Variable - Unpredictable daily changes'', ''warning'')),
      (''Medium'', (''Moderate Variability - Some daily fluctuation'', ''info'')),
      (''Low'', (''Stable - Consistent daily patterns'', ''positive''))]"

definition generate_volatility_insight :: "analysis_results \<Rightarrow> insight" where
  "generate_volatility_insight results =
     (let trends = py_get (trend_metrics results) empty_trend;
          volatility_level' = py_get (volatility_level trends) ''Medium'';
          (msg, severity) = py_get (map_of volatility_msg volatility_level') (''Unknown'', ''info'')
      in
      [(''title'', ''ENROLLMENT VOLATILITY - Stability Check''),
       (''message'', ''Volatility Level: '' @ msg @ ''. This affects resource planning and forecasting.''),
       (''details'', volatility_level' @ '' volatility means daily enrollments '' @
          (if volatility_level' = ''High'' then ''vary significantly''
           else if volatility_level' = ''Medium'' then ''fluctuate moderately''
           else ''remain stable'') @ ''.''),
       (''action'', (if volatility_level' = ''High'' then ''Use flexible resource planning''
                     else if volatility_level' = ''Medium'' then ''Maintain current planning''
                     else ''Optimize fixed resource allocation'')),
       (''severity'', severity),
       (''type'', ''trend'')])"

subsection \<open>Capacity insights\<close>

text \<open>
  The average per day is a rough estimate: the total of the records over 365, when the
  total is positive.
\<close>

definition generate_capacity_insight :: "analysis_results \<Rightarrow> insight" where
  "generate_capacity_insight results =
     (let temporal = py_get (temporal_metrics results) empty_temporal;
          peak_count' = py_get (peak_count temporal) 0;
          total_records' = py_get (temporal_metrics.total_records temporal) 0;
          avg_daily = (if total_records' > 0 then of_int total_records' / 365 else of_int total_records');
          utilization = (if peak_count' > 0 then Fin (avg_daily / of_int peak_count' * 100) else Fin 0);
          (status, severity) =
            (if xgt utilization (Fin 80) then (''High Load - Operating near capacity'', ''warning'')
             else if xgt utilization (Fin 50) then (''Moderate Load - Good headroom'', ''info'')
             else (''Low Load - Plenty of capacity'', ''positive''))
      in
      [(''title'', ''SYSTEM CAPACITY - Load Analysis''),
       (''message'', ''Average-to-peak utilization is '' @ fmt_fixed 1 utilization @ ''%. Status: '' @
          status @ ''. '' @
          ''This shows how efficiently the system capacity is being used.''),
       (''details'', ''Capacity planning ensures it can handle peak loads without degradation.''),
       (''action'', (if xgt utilization (Fin 80) then ''Upgrade infrastructure urgently''
                     else if xgt utilization (Fin 50) then ''Monitor capacity trends''
                     else ''Maintain current capacity'')),
       (''severity'', severity),
       (''type'', ''capacity'')])"

subsection \<open>The generator and its recommendations\<close>

text \<open>
  The state of an \<^verbatim>\<open>InsightGenerator\<close>: the analysis results it was built from, the
  insights and the recommendations. A method that assigns to \<^verbatim>\<open>self\<close> returns the
  new state.
\<close>

record insight_generator =
  results :: analysis_results
  insights :: "insight list"
  recommendations :: "string list"

text \<open>
  One loop of \<^verbatim>\<open>generate_recommendations\<close>: the action of every insight whose
  severity is wanted is appended, in the order of the insights.
\<close>

fun append_actions :: "(string option \<Rightarrow> bool) \<Rightarrow> string \<Rightarrow> insight list \<Rightarrow> string list \<Rightarrow> string list" where
  "append_actions wanted dflt [] recs = recs"
| "append_actions wanted dflt (insight # rest) recs =
     append_actions wanted dflt rest
       (if wanted (insight_get insight ''severity'')
        then recs @ [py_get (insight_get insight ''action'') dflt]
        else recs)"

definition default_recommendations :: "string list" where
  "default_recommendations =
     [''Monitor all key metrics regularly'',
      ''Maintain current data collection standards'',
      ''Review system performance weekly'',
      ''Plan quarterly improvement initiatives'']"

definition generate_recommendations :: "insight_generator \<Rightarrow> insight_generator" where
  "generate_recommendations self =
     (let recs0 = [];
          recs1 = append_actions (\<lambda>s. s \<in> set [Some ''critical'', Some ''warning''])
                    ''Review insight'' (insights self) recs0;
          recs2 = append_actions (\<lambda>s. s = Some ''positive'')
                    ''Continue current approach'' (insights self) recs1;
          recs3 = (if recs2 = [] then default_recommendations else recs2)
      in self\<lparr>recommendations := take 10 recs3\<rparr>)"

definition generate_all_insights :: "insight_generator \<Rightarrow> insight_generator" where
  "generate_all_insights self =
     (let r = results self;
          appended = insights self @
            [generate_quality_insight r,
             generate_temporal_insight r,
             generate_geographic_insight r,
             generate_demographic_insight r,
             generate_peak_activity_insight r,
             generate_weekly_consistency_insight r,
             generate_state_coverage_insight r,
             generate_gender_insight r,
             generate_duplicates_insight r,
             generate_biometric_insight r,
             generate_update_insight r,
             generate_volatility_insight r,
             generate_capacity_insight r];
          kept = filter (\<lambda>i. i \<noteq> []) appended
      in generate_recommendations (self\<lparr>insights := kept\<rparr>))"

text \<open>The constructor.\<close>

definition init :: "analysis_results \<Rightarrow> insight_generator" where
  "init analysis_results =
     generate_all_insights \<lparr>results = analysis_results, insights = [], recommendations = []\<rparr>"

subsection \<open>Retrieval\<close>

definition get_all_insights :: "insight_generator \<Rightarrow> insight list" where
  "get_all_insights self = insights self"

definition get_insights_by_type :: "insight_generator \<Rightarrow> string \<Rightarrow> insight list" where
  "get_insights_by_type self insight_type =
     filter (\<lambda>i. insight_get i ''type'' = Some insight_type) (insights self)"

definition get_insights_by_severity :: "insight_generator \<Rightarrow> string \<Rightarrow> insight list" where
  "get_insights_by_severity self severity =
     filter (\<lambda>i. insight_get i ''severity'' = Some severity) (insights self)"

definition get_key_recommendations :: "insight_generator \<Rightarrow> string list" where
  "get_key_recommendations self = take 5 (recommendations self)"

definition summary_status :: "nat \<Rightarrow> nat \<Rightarrow> string \<times> string" where
  "summary_status critical warning =
     (if critical > 0 then ('' CRITICAL - Immediate Action Required'', ''#ef4444'')
      else if warning > 0 then ('' CAUTION - Review Needed'', ''#f59e0b'')
      else ('' ON TRACK - Healthy Performance'', ''#10b981''))"

definition get_summary_text :: "insight_generator \<Rightarrow> string" where
  \<open>get_summary_text self =
     (let critical = length (get_insights_by_severity self ''critical'');
          warning = length (get_insights_by_severity self ''warning'');
          positive = length (get_insights_by_severity self ''positive'');
          (status, color) = summary_status critical warning
      in
      ''<div style="background-color:'' @ color @
        ''; color:white; padding:15px; border-radius:8px; margin-bottom:20px;">'' @
      ''<h1 style="margin:8 px; font-size:18px;"> '' @ status @ ''</h2>'' @
      ''<p style="margin:8px 0 0 0; font-size:14px; font-weight:bold;">'' @
      ''Dashboard shows: '' @ show_nat positive @ '' positive metrics, '' @
        show_nat warning @ '' warnings, '' @ show_nat critical @ '' critical issues. '' @
      ''Review details below.</p>'' @
      ''</div>'')\<close>

record summary =
  total_insights :: nat
  critical :: nat
  warning :: nat
  positive :: nat
  info :: nat

record json_export =
  json_insights :: "insight list"
  json_recommendations :: "string list"
  json_summary :: summary

definition to_json_safe :: "insight_generator \<Rightarrow> json_export" where
  "to_json_safe self =
     \<lparr>json_insights = insights self,
      json_recommendations = recommendations self,
      json_summary =
        \<lparr>total_insights = length (insights self),
         critical = length (get_insights_by_severity self ''critical''),
         warning = length (get_insights_by_severity self ''warning''),
         positive = length (get_insights_by_severity self ''positive''),
         info = length (get_insights_by_severity self ''info'')\<rparr>\<rparr>"

section \<open>Notions of the specification\<close>

text \<open>
  For the statement of completeness: the cells of a dataset counted row by row, as the
  specification speaks of them, where the calculator counts column by column.
\<close>

definition present_cells :: "dataframe \<Rightarrow> nat" where
  "present_cells df = sum_list (map (\<lambda>r. length (filter (\<lambda>v. v \<noteq> None) r)) (rows df))"

definition missing_cells :: "dataframe \<Rightarrow> nat" where
  "missing_cells df = sum_list (map (\<lambda>r. length (filter (\<lambda>v. v = None) r)) (rows df))"

text \<open>
  The dataset of the end-to-end example of the specification: the states A, B and C with
  the totals 60, 30 and 10.
\<close>

definition example_enrollment :: dataframe where
  "example_enrollment =
     \<lparr>columns = [''state'', ''total''],
      rows = [[Some (Str ''A''), Some (Num 60)],
              [Some (Str ''B''), Some (Num 30)],
              [Some (Str ''C''), Some (Num 10)]]\<rparr>"

section \<open>Properties of the insight generator\<close>

subsection \<open>What every generator returns\<close>

text \<open>
  For each generator: its record is populated, its severity is one of the four severity
  bands, and its action is present and is not the first default recommendation.
\<close>

lemma quality_populated: "generate_quality_insight r \<noteq> []"
  by (simp add: generate_quality_insight_def Let_def)

lemma quality_severity:
  "insight_get (generate_quality_insight r) ''severity''
     \<in> {Some ''positive'', Some ''info'', Some ''warning'', Some ''critical''}"
  by (simp add: generate_quality_insight_def Let_def insight_get_def)

lemma quality_action:
  "insight_get (generate_quality_insight r) ''action'' \<notin> {None, Some ''Monitor all key metrics regularly''}"
  by (simp add: generate_quality_insight_def Let_def insight_get_def)

lemma temporal_populated: "generate_temporal_insight r \<noteq> []"
  by (simp add: generate_temporal_insight_def Let_def)

lemma temporal_severity:
  "insight_get (generate_temporal_insight r) ''severity''
     \<in> {Some ''positive'', Some ''info'', Some ''warning'', Some ''critical''}"
  by (simp add: generate_temporal_insight_def Let_def insight_get_def)

lemma temporal_action:
  "insight_get (generate_temporal_insight r) ''action'' \<notin> {None, Some ''Monitor all key metrics regularly''}"
  by (simp add: generate_temporal_insight_def Let_def insight_get_def)

lemma geographic_populated: "generate_geographic_insight r \<noteq> []"
  by (simp add: generate_geographic_insight_def Let_def)

lemma geographic_severity:
  "insight_get (generate_geographic_insight r) ''severity''
     \<in> {Some ''positive'', Some ''info'', Some ''warning'', Some ''critical''}"
  by (simp add: generate_geographic_insight_def Let_def insight_get_def)

lemma geographic_action:
  "insight_get (generate_geographic_insight r) ''action'' \<notin> {None, Some ''Monitor all key metrics regularly''}"
  by (simp add: generate_geographic_insight_def Let_def insight_get_def)

lemma demographic_populated: "generate_demographic_insight r \<noteq> []"
  by (simp add: generate_demographic_insight_def Let_def)

lemma demographic_severity:
  "insight_get (generate_demographic_insight r) ''severity''
     \<in> {Some ''positive'', Some ''info'', Some ''warning'', Some ''critical''}"
  by (simp add: generate_demographic_insight_def Let_def insight_get_def)

lemma demographic_action:
  "insight_get (generate_demographic_insight r) ''action'' \<notin> {None, Some ''Monitor all key metrics regularly''}"
  by (simp add: generate_demographic_insight_def Let_def insight_get_def)

lemma peak_activity_populated: "generate_peak_activity_insight r \<noteq> []"
  by (simp add: generate_peak_activity_insight_def Let_def)

lemma peak_activity_severity:
  "insight_get (generate_peak_activity_insight r) ''severity''
     \<in> {Some ''positive'', Some ''info'', Some ''warning'', Some ''critical''}"
  by (simp add: generate_peak_activity_insight_def Let_def insight_get_def)

lemma peak_activity_action:
  "insight_get (generate_peak_activity_insight r) ''action'' \<notin> {None, Some ''Monitor all key metrics regularly''}"
  by (simp add: generate_peak_activity_insight_def Let_def insight_get_def)

lemma weekly_consistency_populated: "generate_weekly_consistency_insight r \<noteq> []"
  by (simp add: generate_weekly_consistency_insight_def Let_def case_prod_beta)

lemma weekly_consistency_severity:
  "insight_get (generate_weekly_consistency_insight r) ''severity''
     \<in> {Some ''positive'', Some ''info'', Some ''warning'', Some ''critical''}"
  by (simp add: generate_weekly_consistency_insight_def Let_def insight_get_def case_prod_beta)

lemma weekly_consistency_action:
  "insight_get (generate_weekly_consistency_insight r) ''action'' \<notin> {None, Some ''Monitor all key metrics regularly''}"
  by (simp add: generate_weekly_consistency_insight_def Let_def insight_get_def case_prod_beta)

lemma state_coverage_populated: "generate_state_coverage_insight r \<noteq> []"
  by (simp add: generate_state_coverage_insight_def Let_def case_prod_beta)

lemma state_coverage_severity:
  "insight_get (generate_state_coverage_insight r) ''severity''
     \<in> {Some ''positive'', Some ''info'', Some ''warning'', Some ''critical''}"
  by (simp add: generate_state_coverage_insight_def Let_def insight_get_def case_prod_beta)

lemma state_coverage_action:
  "insight_get (generate_state_coverage_insight r) ''action'' \<notin> {None, Some ''Monitor all key metrics regularly''}"
  by (simp add: generate_state_coverage_insight_def Let_def insight_get_def case_prod_beta)

lemma duplicates_populated: "generate_duplicates_insight r \<noteq> []"
  by (simp add: generate_duplicates_insight_def Let_def case_prod_beta)

lemma duplicates_severity:
  "insight_get (generate_duplicates_insight r) ''severity''
     \<in> {Some ''positive'', Some ''info'', Some ''warning'', Some ''critical''}"
  by (simp add: generate_duplicates_insight_def Let_def insight_get_def case_prod_beta)

lemma duplicates_action:
  "insight_get (generate_duplicates_insight r) ''action'' \<notin> {None, Some ''Monitor all key metrics regularly''}"
  by (simp add: generate_duplicates_insight_def Let_def insight_get_def case_prod_beta)

lemma update_populated: "generate_update_insight r \<noteq> []"
  by (simp add: generate_update_insight_def Let_def case_prod_beta)

lemma update_severity:
  "insight_get (generate_update_insight r) ''severity''
     \<in> {Some ''positive'', Some ''info'', Some ''warning'', Some ''critical''}"
  by (simp add: generate_update_insight_def Let_def insight_get_def case_prod_beta)

lemma update_action:
  "insight_get (generate_update_insight r) ''action'' \<notin> {None, Some ''Monitor all key metrics regularly''}"
  by (simp add: generate_update_insight_def Let_def insight_get_def case_prod_beta)

lemma capacity_populated: "generate_capacity_insight r \<noteq> []"
  by (simp add: generate_capacity_insight_def Let_def case_prod_beta)

lemma capacity_severity:
  "insight_get (generate_capacity_insight r) ''severity''
     \<in> {Some ''positive'', Some ''info'', Some ''warning'', Some ''critical''}"
  by (simp add: generate_capacity_insight_def Let_def insight_get_def case_prod_beta)

lemma capacity_action:
  "insight_get (generate_capacity_insight r) ''action'' \<notin> {None, Some ''Monitor all key metrics regularly''}"
  by (simp add: generate_capacity_insight_def Let_def insight_get_def case_prod_beta)

lemma volatility_pair:
  "snd (py_get (map_of volatility_msg l) (''Unknown'', ''info'')) \<in> {''positive'', ''info'', ''warning''}"
  by (simp add: volatility_msg_def py_get_def)

lemma volatility_populated: "generate_volatility_insight r \<noteq> []"
  by (simp add: generate_volatility_insight_def Let_def case_prod_beta)

lemma volatility_severity:
  "insight_get (generate_volatility_insight r) ''severity''
     \<in> {Some ''positive'', Some ''info'', Some ''warning'', Some ''critical''}"
proof -
  define l where "l = py_get (volatility_level (py_get (trend_metrics r) empty_trend)) ''Medium''"
  have "insight_get (generate_volatility_insight r) ''severity'' =
          Some (snd (py_get (map_of volatility_msg l) (''Unknown'', ''info'')))"
    by (simp add: generate_volatility_insight_def Let_def insight_get_def l_def case_prod_beta)
  with volatility_pair [of l] show ?thesis
    by auto
qed

lemma volatility_action:
  "insight_get (generate_volatility_insight r) ''action'' \<notin> {None, Some ''Monitor all key metrics regularly''}"
  by (simp add: generate_volatility_insight_def Let_def insight_get_def case_prod_beta)

lemma gender_dropped:
  "(generate_gender_insight r = []) =
     (py_get (gender_distribution (py_get (demographic_metrics r) empty_demographic)) [] = [])"
  by (simp add: generate_gender_insight_def Let_def case_prod_beta)

lemma gender_severity:
  "generate_gender_insight r \<noteq> [] \<Longrightarrow>
   insight_get (generate_gender_insight r) ''severity''
     \<in> {Some ''positive'', Some ''info'', Some ''warning'', Some ''critical''}"
  by (simp add: generate_gender_insight_def Let_def insight_get_def case_prod_beta split: if_splits)

lemma gender_action:
  "generate_gender_insight r \<noteq> [] \<Longrightarrow>
   insight_get (generate_gender_insight r) ''action'' \<notin> {None, Some ''Monitor all key metrics regularly''}"
  by (simp add: generate_gender_insight_def Let_def insight_get_def case_prod_beta split: if_splits)

lemma biometric_dropped:
  "(generate_biometric_insight r = []) = (py_get (biometric_metrics r) [] = [])"
  by (simp add: generate_biometric_insight_def Let_def case_prod_beta)

lemma biometric_severity:
  "generate_biometric_insight r \<noteq> [] \<Longrightarrow>
   insight_get (generate_biometric_insight r) ''severity''
     \<in> {Some ''positive'', Some ''info'', Some ''warning'', Some ''critical''}"
  by (simp add: generate_biometric_insight_def Let_def insight_get_def case_prod_beta split: if_splits)

lemma biometric_action:
  "generate_biometric_insight r \<noteq> [] \<Longrightarrow>
   insight_get (generate_biometric_insight r) ''action'' \<notin> {None, Some ''Monitor all key metrics regularly''}"
  by (simp add: generate_biometric_insight_def Let_def insight_get_def case_prod_beta split: if_splits)

lemma insights_generate_recommendations:
  "insights (generate_recommendations self) = insights self"
  by (simp add: generate_recommendations_def Let_def)

text \<open>The insights that the constructor keeps.\<close>

lemma insights_init:
  "insights (init r) = filter (\<lambda>i. i \<noteq> [])
     [generate_quality_insight r, generate_temporal_insight r, generate_geographic_insight r,
      generate_demographic_insight r, generate_peak_activity_insight r,
      generate_weekly_consistency_insight r, generate_state_coverage_insight r,
      generate_gender_insight r, generate_duplicates_insight r, generate_biometric_insight r,
      generate_update_insight r, generate_volatility_insight r, generate_capacity_insight r]"
  by (simp only: init_def generate_all_insights_def Let_def insights_generate_recommendations
        insight_generator.simps append_Nil)

lemma insights_init_cases:
  assumes "i \<in> set (insights (init r))"
  shows "i \<noteq> [] \<and> i \<in> {generate_quality_insight r, generate_temporal_insight r,
      generate_geographic_insight r, generate_demographic_insight r,
      generate_peak_activity_insight r, generate_weekly_consistency_insight r,
      generate_state_coverage_insight r, generate_gender_insight r,
      generate_duplicates_insight r, generate_biometric_insight r, generate_update_insight r,
      generate_volatility_insight r, generate_capacity_insight r}"
  using assms unfolding insights_init set_filter by simp

lemma generated_severity:
  assumes "i \<in> set (insights (init r))"
  shows "insight_get i ''severity'' \<in> {Some ''positive'', Some ''info'', Some ''warning'', Some ''critical''}"
proof -
  have ne: "i \<noteq> []" and mem: "i \<in> {generate_quality_insight r, generate_temporal_insight r,
      generate_geographic_insight r, generate_demographic_insight r,
      generate_peak_activity_insight r, generate_weekly_consistency_insight r,
      generate_state_coverage_insight r, generate_gender_insight r,
      generate_duplicates_insight r, generate_biometric_insight r, generate_update_insight r,
      generate_volatility_insight r, generate_capacity_insight r}"
    using insights_init_cases [OF assms] by blast+
  from mem show ?thesis
  proof (elim insertE emptyE)
    assume "i = generate_gender_insight r"
    with ne show ?thesis using gender_severity [of r] by blast
  next
    assume "i = generate_biometric_insight r"
    with ne show ?thesis using biometric_severity [of r] by blast
  qed (simp_all only: quality_severity temporal_severity geographic_severity
        demographic_severity peak_activity_severity weekly_consistency_severity
        state_coverage_severity duplicates_severity update_severity volatility_severity
        capacity_severity)
qed

lemma generated_action:
  assumes "i \<in> set (insights (init r))"
  shows "insight_get i ''action'' \<notin> {None, Some ''Monitor all key metrics regularly''}"
proof -
  have ne: "i \<noteq> []" and mem: "i \<in> {generate_quality_insight r, generate_temporal_insight r,
      generate_geographic_insight r, generate_demographic_insight r,
      generate_peak_activity_insight r, generate_weekly_consistency_insight r,
      generate_state_coverage_insight r, generate_gender_insight r,
      generate_duplicates_insight r, generate_biometric_insight r, generate_update_insight r,
      generate_volatility_insight r, generate_capacity_insight r}"
    using insights_init_cases [OF assms] by blast+
  from mem show ?thesis
  proof (elim insertE emptyE)
    assume "i = generate_gender_insight r"
    with ne show ?thesis using gender_action [of r] by blast
  next
    assume "i = generate_biometric_insight r"
    with ne show ?thesis using biometric_action [of r] by blast
  qed (simp_all only: quality_action temporal_action geographic_action
        demographic_action peak_activity_action weekly_consistency_action
        state_coverage_action duplicates_action update_action volatility_action
        capacity_action not_False_eq_True)
qed

lemma append_actions_eq:
  "append_actions wanted d xs recs =
     recs @ map (\<lambda>i. py_get (insight_get i ''action'') d)
              (filter (\<lambda>i. wanted (insight_get i ''severity'')) xs)"
  by (induction xs arbitrary: recs) auto

lemma recommendations_eq:
  "recommendations (generate_recommendations self) =
     (let corrective = map (\<lambda>i. py_get (insight_get i ''action'') ''Review insight'')
            (filter (\<lambda>i. insight_get i ''severity'' \<in> {Some ''critical'', Some ''warning''})
               (insights self));
          reinforcing = map (\<lambda>i. py_get (insight_get i ''action'') ''Continue current approach'')
            (filter (\<lambda>i. insight_get i ''severity'' = Some ''positive'') (insights self))
      in take 10 (if corrective @ reinforcing = [] then default_recommendations
                  else corrective @ reinforcing))"
  by (simp add: generate_recommendations_def append_actions_eq Let_def)

lemma generate_recommendations_twice:
  "generate_recommendations (generate_recommendations self) = generate_recommendations self"
  by (simp add: generate_recommendations_def Let_def)

lemma recommendations_init:
  "recommendations (init r) = recommendations (generate_recommendations (init r))"
  by (simp only: init_def generate_all_insights_def Let_def generate_recommendations_twice)

lemma defaults_iff_generated:
  "(recommendations (init r) = default_recommendations) =
   (filter (\<lambda>i. insight_get i ''severity'' \<in> {Some ''critical'', Some ''warning'', Some ''positive''})
      (insights (init r)) = [])"
proof -
  define xs where "xs = insights (init r)"
  define cs where "cs = map (\<lambda>i. py_get (insight_get i ''action'') ''Review insight'')
      (filter (\<lambda>i. insight_get i ''severity'' \<in> {Some ''critical'', Some ''warning''}) xs)"
  define ps where "ps = map (\<lambda>i. py_get (insight_get i ''action'') ''Continue current approach'')
      (filter (\<lambda>i. insight_get i ''severity'' = Some ''positive'') xs)"
  have recs: "recommendations (init r) =
      take 10 (if cs @ ps = [] then default_recommendations else cs @ ps)"
    unfolding cs_def ps_def xs_def
    by (subst recommendations_init) (simp add: recommendations_eq Let_def)
  have act: "py_get (insight_get i ''action'') d \<noteq> ''Monitor all key metrics regularly''"
    if "i \<in> set xs" for i d
    using generated_action [of i r] that by (auto simp: xs_def py_get_def split: option.splits)
  have no_monitor: "a \<noteq> ''Monitor all key metrics regularly''" if "a \<in> set (cs @ ps)" for a
  proof -
    from that obtain i d where "i \<in> set xs" and "a = py_get (insight_get i ''action'') d"
      unfolding cs_def ps_def by auto
    then show ?thesis
      using act [of i d] by simp
  qed
  have empty_iff: "(cs @ ps = []) =
      (filter (\<lambda>i. insight_get i ''severity'' \<in> {Some ''critical'', Some ''warning'', Some ''positive''}) xs = [])"
    by (auto simp: cs_def ps_def filter_empty_conv)
  show ?thesis
  proof (cases "cs @ ps = []")
    case True
    then have "recommendations (init r) = default_recommendations"
      using recs by (simp add: default_recommendations_def)
    then show ?thesis
      unfolding xs_def [symmetric] using True empty_iff by blast
  next
    case False
    then obtain a rest where ar: "cs @ ps = a # rest"
      by (cases "cs @ ps") auto
    then have "a \<noteq> ''Monitor all key metrics regularly''"
      using no_monitor [of a] by simp
    moreover have "recommendations (init r) = a # take 9 rest"
      using recs ar by simp
    ultimately have "recommendations (init r) \<noteq> default_recommendations"
      by (simp add: default_recommendations_def)
    then show ?thesis
      unfolding xs_def [symmetric] using False empty_iff by blast
  qed
qed

lemma severity_partition:
  "list_all (\<lambda>i. insight_get i ''severity''
       \<in> {Some ''positive'', Some ''info'', Some ''warning'', Some ''critical''}) xs \<Longrightarrow>
   length (filter (\<lambda>i. insight_get i ''severity'' = Some ''critical'') xs) +
   length (filter (\<lambda>i. insight_get i ''severity'' = Some ''warning'') xs) +
   length (filter (\<lambda>i. insight_get i ''severity'' = Some ''positive'') xs) +
   length (filter (\<lambda>i. insight_get i ''severity'' = Some ''info'') xs) = length xs"
  by (induction xs) auto

lemma length_insights_init:
  "length (insights (init r)) =
     11 + (if generate_gender_insight r = [] then 0 else 1) +
          (if generate_biometric_insight r = [] then 0 else 1)"
  unfolding insights_init
  by (simp add: quality_populated temporal_populated geographic_populated
      demographic_populated peak_activity_populated weekly_consistency_populated
      state_coverage_populated duplicates_populated update_populated volatility_populated
      capacity_populated)

subsection \<open>Recommendations\<close>

text \<open>
  Claim C7. The recommendation list holds the actions of the insights of severity
  \<^verbatim>\<open>critical\<close> or \<^verbatim>\<open>warning\<close>, in the order of the insights, followed by the actions
  of the insights of severity \<^verbatim>\<open>positive\<close>; the action of an insight of any other
  severity is not taken; the list is cut to its first 10 entries, so it never has more; it
  is the list of the four default recommendations when no insight has one of the three
  severities, and for the insights that the generator itself produces only then.
\<close>

theorem recommendations_from_severities:
  "recommendations (generate_recommendations self) =
     (let corrective = map (\<lambda>i. py_get (insight_get i ''action'') ''Review insight'')
            (filter (\<lambda>i. insight_get i ''severity'' \<in> {Some ''critical'', Some ''warning''})
               (insights self));
          reinforcing = map (\<lambda>i. py_get (insight_get i ''action'') ''Continue current approach'')
            (filter (\<lambda>i. insight_get i ''severity'' = Some ''positive'') (insights self))
      in take 10 (if corrective @ reinforcing = [] then default_recommendations
                  else corrective @ reinforcing)) \<and>
   length (recommendations (generate_recommendations self)) \<le> 10 \<and>
   recommendations (init r) = recommendations (generate_recommendations (init r)) \<and>
   ((recommendations (init r) = default_recommendations) =
    (filter (\<lambda>i. insight_get i ''severity'' \<in> {Some ''critical'', Some ''warning'', Some ''positive''})
       (insights (init r)) = []))"
proof (intro conjI)
  show "length (recommendations (generate_recommendations self)) \<le> 10"
    by (simp add: generate_recommendations_def Let_def)
qed (rule recommendations_eq recommendations_init defaults_iff_generated)+

text \<open>
  The example of the specification: of four insights of severities critical, positive,
  warning and info, the actions of the first and the third come first, the action of the
  second follows, and the action of the fourth is left out.
\<close>

theorem recommendations_from_severities_example:
  "recommendations (generate_recommendations
     \<lparr>results = empty_results,
      insights = [[(''action'', ''fix''), (''severity'', ''critical'')],
                  [(''action'', ''keep''), (''severity'', ''positive'')],
                  [(''action'', ''check''), (''severity'', ''warning'')],
                  [(''action'', ''note''), (''severity'', ''info'')]],
      recommendations = []\<rparr>) = [''fix'', ''check'', ''keep'']"
  using recommendations_from_severities
    [of "\<lparr>results = empty_results,
      insights = [[(''action'', ''fix''), (''severity'', ''critical'')],
                  [(''action'', ''keep''), (''severity'', ''positive'')],
                  [(''action'', ''check''), (''severity'', ''warning'')],
                  [(''action'', ''note''), (''severity'', ''info'')]],
      recommendations = []\<rparr>" empty_results, THEN conjunct1]
  by (simp add: Let_def insight_get_def py_get_def)

subsection \<open>Summary banner\<close>

lemma length_filter_pos: "(0 < length (filter P xs)) = (\<exists>x \<in> set xs. P x)"
  by (simp add: filter_empty_conv)

text \<open>
  Claim C8. The banner is decided by the insights that the generator holds, by their
  severity and in a fixed order: when one of them has the severity \<^verbatim>\<open>critical\<close> it is the
  red banner that reads CRITICAL; otherwise, when one of them has the severity
  \<^verbatim>\<open>warning\<close>, the amber banner that reads CAUTION; otherwise the green banner that reads
  ON TRACK. The three numbers that the banner prints are the numbers of insights whose
  entry \<^verbatim>\<open>severity\<close> is \<^verbatim>\<open>positive\<close>, \<^verbatim>\<open>warning\<close> and \<^verbatim>\<open>critical\<close>.
\<close>

theorem summary_banner_bands:
  \<open>get_summary_text self =
     (let count = (\<lambda>s. length (filter (\<lambda>i. map_of i ''severity'' = Some s) (insights self)));
          red = (\<exists>i \<in> set (insights self). map_of i ''severity'' = Some ''critical'');
          amber = (\<exists>i \<in> set (insights self). map_of i ''severity'' = Some ''warning'')
      in
      ''<div style="background-color:'' @
        (if red then ''#ef4444'' else if amber then ''#f59e0b'' else ''#10b981'') @
      ''; color:white; padding:15px; border-radius:8px; margin-bottom:20px;">'' @
      ''<h1 style="margin:8 px; font-size:18px;"> '' @
        (if red then '' CRITICAL - Immediate Action Required''
         else if amber then '' CAUTION - Review Needed''
         else '' ON TRACK - Healthy Performance'') @
      ''</h2>'' @
      ''<p style="margin:8px 0 0 0; font-size:14px; font-weight:bold;">'' @
      ''Dashboard shows: '' @ show_nat (count ''positive'') @ '' positive metrics, '' @
        show_nat (count ''warning'') @ '' warnings, '' @
        show_nat (count ''critical'') @ '' critical issues. '' @
      ''Review details below.</p></div>'')\<close>
  by (auto simp add: get_summary_text_def summary_status_def Let_def
      get_insights_by_severity_def insight_get_def filter_empty_conv)

text \<open>
  The three bands: the generator of the empty results holds 2 critical insights, 3 warnings
  and 4 positive ones, and shows the red banner; a warning and a positive insight show the
  amber banner; one informational insight shows the green banner.
\<close>

theorem summary_banner_bands_example:
  \<open>get_summary_text (init empty_results) =
      ''<div style="background-color:#ef4444; color:white; padding:15px; border-radius:8px; margin-bottom:20px;">'' @
      ''<h1 style="margin:8 px; font-size:18px;">  CRITICAL - Immediate Action Required</h2>'' @
      ''<p style="margin:8px 0 0 0; font-size:14px; font-weight:bold;">'' @
      ''Dashboard shows: 4 positive metrics, 3 warnings, 2 critical issues. '' @
      ''Review details below.</p></div>'' \<and>
    get_summary_text \<lparr>results = empty_results,
        insights = [[(''severity'', ''warning'')], [(''severity'', ''positive'')]],
        recommendations = []\<rparr> =
      ''<div style="background-color:#f59e0b; color:white; padding:15px; border-radius:8px; margin-bottom:20px;">'' @
      ''<h1 style="margin:8 px; font-size:18px;">  CAUTION - Review Needed</h2>'' @
      ''<p style="margin:8px 0 0 0; font-size:14px; font-weight:bold;">'' @
      ''Dashboard shows: 1 positive metrics, 1 warnings, 0 critical issues. '' @
      ''Review details below.</p></div>'' \<and>
    get_summary_text \<lparr>results = empty_results,
        insights = [[(''severity'', ''info'')]], recommendations = []\<rparr> =
      ''<div style="background-color:#10b981; color:white; padding:15px; border-radius:8px; margin-bottom:20px;">'' @
      ''<h1 style="margin:8 px; font-size:18px;">  ON TRACK - Healthy Performance</h2>'' @
      ''<p style="margin:8px 0 0 0; font-size:14px; font-weight:bold;">'' @
      ''Dashboard shows: 0 positive metrics, 0 warnings, 0 critical issues. '' @
      ''Review details below.</p></div>''\<close>
proof -
  have c: "length (filter (\<lambda>i. map_of i ''severity'' = Some ''critical'')
             (insights (init empty_results))) = 2"
    by code_simp
  have w: "length (filter (\<lambda>i. map_of i ''severity'' = Some ''warning'')
             (insights (init empty_results))) = 3"
    by code_simp
  have p: "length (filter (\<lambda>i. map_of i ''severity'' = Some ''positive'')
             (insights (init empty_results))) = 4"
    by code_simp
  have s: "show_nat 0 = ''0''" "show_nat (Suc 0) = ''1''" "show_nat 2 = ''2''"
    "show_nat 3 = ''3''" "show_nat 4 = ''4''"
    by code_simp+
  have red: "\<exists>i \<in> set (insights (init empty_results)). map_of i ''severity'' = Some ''critical''"
    using c length_filter_pos [of "\<lambda>i. map_of i ''severity'' = Some ''critical''"
        "insights (init empty_results)"]
    by simp
  from summary_banner_bands [of "init empty_results"] red
  have \<open>get_summary_text (init empty_results) =
      ''<div style="background-color:#ef4444; color:white; padding:15px; border-radius:8px; margin-bottom:20px;">'' @
      ''<h1 style="margin:8 px; font-size:18px;">  CRITICAL - Immediate Action Required</h2>'' @
      ''<p style="margin:8px 0 0 0; font-size:14px; font-weight:bold;">'' @
      ''Dashboard shows: 4 positive metrics, 3 warnings, 2 critical issues. '' @
      ''Review details below.</p></div>''\<close>
    by (simp add: Let_def c w p s)
  moreover from summary_banner_bands [of "\<lparr>results = empty_results,
        insights = [[(''severity'', ''warning'')], [(''severity'', ''positive'')]],
        recommendations = []\<rparr>"]
  have \<open>get_summary_text \<lparr>results = empty_results,
        insights = [[(''severity'', ''warning'')], [(''severity'', ''positive'')]],
        recommendations = []\<rparr> =
      ''<div style="background-color:#f59e0b; color:white; padding:15px; border-radius:8px; margin-bottom:20px;">'' @
      ''<h1 style="margin:8 px; font-size:18px;">  CAUTION - Review Needed</h2>'' @
      ''<p style="margin:8px 0 0 0; font-size:14px; font-weight:bold;">'' @
      ''Dashboard shows: 1 positive metrics, 1 warnings, 0 critical issues. '' @
      ''Review details below.</p></div>''\<close>
    by (simp add: Let_def s)
  moreover from summary_banner_bands [of "\<lparr>results = empty_results,
        insights = [[(''severity'', ''info'')]], recommendations = []\<rparr>"]
  have \<open>get_summary_text \<lparr>results = empty_results,
        insights = [[(''severity'', ''info'')]], recommendations = []\<rparr> =
      ''<div style="background-color:#10b981; color:white; padding:15px; border-radius:8px; margin-bottom:20px;">'' @
      ''<h1 style="margin:8 px; font-size:18px;">  ON TRACK - Healthy Performance</h2>'' @
      ''<p style="margin:8px 0 0 0; font-size:14px; font-weight:bold;">'' @
      ''Dashboard shows: 0 positive metrics, 0 warnings, 0 critical issues. '' @
      ''Review details below.</p></div>''\<close>
    by (simp add: Let_def s)
  ultimately show ?thesis
    by (simp only: simp_thms)
qed

subsection \<open>The generated insights\<close>

text \<open>
  Claim C9. Whatever the analysis results are, the empty dictionary included, the list of
  insights is not empty: eleven of the thirteen generators always return a populated
  record; the gender insight is empty exactly when there is no gender distribution and the
  biometric insight exactly when there are no biometric metrics; so the generator keeps at
  least 11 insights, and exactly 11 for the empty results.
\<close>

theorem insights_never_empty:
  "generate_quality_insight r \<noteq> [] \<and> generate_temporal_insight r \<noteq> [] \<and>
   generate_geographic_insight r \<noteq> [] \<and> generate_demographic_insight r \<noteq> [] \<and>
   generate_peak_activity_insight r \<noteq> [] \<and> generate_weekly_consistency_insight r \<noteq> [] \<and>
   generate_state_coverage_insight r \<noteq> [] \<and> generate_duplicates_insight r \<noteq> [] \<and>
   generate_update_insight r \<noteq> [] \<and> generate_volatility_insight r \<noteq> [] \<and>
   generate_capacity_insight r \<noteq> [] \<and>
   ((generate_gender_insight r = []) =
      (py_get (gender_distribution (py_get (demographic_metrics r) empty_demographic)) [] = [])) \<and>
   ((generate_biometric_insight r = []) = (py_get (biometric_metrics r) [] = [])) \<and>
   length (insights (init r)) =
     11 + (if generate_gender_insight r = [] then 0 else 1) +
          (if generate_biometric_insight r = [] then 0 else 1) \<and>
   11 \<le> length (insights (init r)) \<and>
   insights (init r) \<noteq> [] \<and>
   length (insights (init empty_results)) = 11"
proof -
  have len: "length (insights (init r)) =
     11 + (if generate_gender_insight r = [] then 0 else 1) +
          (if generate_biometric_insight r = [] then 0 else 1)"
    by (rule length_insights_init)
  then have ge: "11 \<le> length (insights (init r))"
    by simp
  then have ne: "insights (init r) \<noteq> []"
    by auto
  have "generate_gender_insight empty_results = []"
    by (simp add: gender_dropped empty_results_def empty_demographic_def py_get_def)
  moreover have "generate_biometric_insight empty_results = []"
    by (simp add: biometric_dropped empty_results_def py_get_def)
  ultimately have e: "length (insights (init empty_results)) = 11"
    by (simp add: length_insights_init)
  show ?thesis
    using len ge ne e
    by (simp only: quality_populated temporal_populated geographic_populated
        demographic_populated peak_activity_populated weekly_consistency_populated
        state_coverage_populated duplicates_populated update_populated volatility_populated
        capacity_populated gender_dropped biometric_dropped simp_thms)
qed

text \<open>
  Claim C10. Every insight that the generator keeps has a severity, and it is one of
  \<^verbatim>\<open>positive\<close>, \<^verbatim>\<open>info\<close>, \<^verbatim>\<open>warning\<close> and \<^verbatim>\<open>critical\<close>; hence the four
  counts of the exported summary add up to the number of insights.
\<close>

theorem severity_counts_sum:
  "list_all (\<lambda>i. insight_get i ''severity''
       \<in> {Some ''positive'', Some ''info'', Some ''warning'', Some ''critical''})
     (json_insights (to_json_safe (init r))) \<and>
   json_insights (to_json_safe (init r)) = insights (init r) \<and>
   critical (json_summary (to_json_safe (init r))) +
   warning (json_summary (to_json_safe (init r))) +
   positive (json_summary (to_json_safe (init r))) +
   info (json_summary (to_json_safe (init r))) =
     total_insights (json_summary (to_json_safe (init r)))"
proof -
  have all: "list_all (\<lambda>i. insight_get i ''severity''
       \<in> {Some ''positive'', Some ''info'', Some ''warning'', Some ''critical''})
     (insights (init r))"
    unfolding list_all_iff using generated_severity by blast
  from severity_partition [OF all] all show ?thesis
    by (simp add: to_json_safe_def get_insights_by_severity_def)
qed

text \<open>For the empty results the counts are 2, 3, 4 and 2, of 11 insights.\<close>

theorem severity_counts_sum_example:
  "json_summary (to_json_safe (init empty_results)) =
     \<lparr>total_insights = 11, critical = 2, warning = 3, positive = 4, info = 2\<rparr> \<and>
   list_all (\<lambda>i. insight_get i ''severity''
       \<in> {Some ''positive'', Some ''info'', Some ''warning'', Some ''critical''})
     (json_insights (to_json_safe (init empty_results)))"
proof -
  have "json_summary (to_json_safe (init empty_results)) =
     \<lparr>total_insights = 11, critical = 2, warning = 3, positive = 4, info = 2\<rparr>"
    by code_simp
  with severity_counts_sum [of empty_results] show ?thesis
    by blast
qed

section \<open>Properties of the metric calculators\<close>

subsection \<open>Completeness\<close>

lemma index_of_nth:
  "distinct xs \<Longrightarrow> j < length xs \<Longrightarrow> index_of xs (xs ! j) = j"
proof (induction xs arbitrary: j)
  case Nil
  then show ?case by simp
next
  case (Cons x xs)
  then show ?case
    by (cases j) auto
qed

lemma length_filter_indicator:
  "length (filter P xs) = sum_list (map (\<lambda>v. if P v then 1 else 0) xs)"
  by (induction xs) simp_all

lemma present_in_row:
  "sum_list (map (\<lambda>j. if cell_at r j \<noteq> None then 1 else 0) [0..<length r]) =
     length (filter (\<lambda>v. v \<noteq> None) r)"
proof -
  have "map (\<lambda>j. if cell_at r j \<noteq> None then 1 else (0::nat)) [0..<length r] =
        map (\<lambda>v. if v \<noteq> None then 1 else 0) (map (\<lambda>j. r ! j) [0..<length r])"
    by (simp add: cell_at_def)
  also have "\<dots> = map (\<lambda>v. if v \<noteq> None then 1 else 0) r"
    by (simp only: map_nth)
  finally show ?thesis
    by (simp only: length_filter_indicator)
qed

lemma column_counts_by_row:
  assumes "list_all (\<lambda>r. length r = n) rs"
  shows "sum_list (map (\<lambda>j. length (filter (\<lambda>r. cell_at r j \<noteq> None) rs)) [0..<n]) =
         sum_list (map (\<lambda>r. length (filter (\<lambda>v. v \<noteq> None) r)) rs)"
  using assms
proof (induction rs)
  case Nil
  then show ?case by simp
next
  case (Cons r rs)
  then have len: "length r = n" and rest: "list_all (\<lambda>r. length r = n) rs"
    by simp_all
  have "map (\<lambda>j. length (filter (\<lambda>r. cell_at r j \<noteq> None) (r # rs))) [0..<n] =
        map (\<lambda>j. (if cell_at r j \<noteq> None then 1 else 0) +
                   length (filter (\<lambda>r. cell_at r j \<noteq> None) rs)) [0..<n]"
    by (rule map_cong) simp_all
  then have "sum_list (map (\<lambda>j. length (filter (\<lambda>r. cell_at r j \<noteq> None) (r # rs))) [0..<n]) =
        sum_list (map (\<lambda>j. if cell_at r j \<noteq> None then 1 else 0) [0..<n]) +
        sum_list (map (\<lambda>j. length (filter (\<lambda>r. cell_at r j \<noteq> None) rs)) [0..<n])"
    by (simp only: sum_list_addf)
  also have "sum_list (map (\<lambda>j. if cell_at r j \<noteq> None then 1 else 0) [0..<n]) =
        length (filter (\<lambda>v. v \<noteq> None) r)"
    using present_in_row [of r] len by simp
  finally show ?case
    using Cons.IH [OF rest] by simp
qed

lemma non_null_cells_eq:
  assumes "wf_dataframe df"
  shows "sum_list (map (\<lambda>col. count_present (column df col)) (columns df)) = present_cells df"
proof -
  have d: "distinct (columns df)"
    and l: "list_all (\<lambda>r. length r = length (columns df)) (rows df)"
    using assms by (simp_all add: wf_dataframe_def)
  have "map (\<lambda>col. count_present (column df col)) (columns df) =
        map (\<lambda>col. count_present (column df col)) (map (\<lambda>j. columns df ! j) [0..<length (columns df)])"
    by (simp only: map_nth)
  also have "\<dots> = map (\<lambda>j. length (filter (\<lambda>r. cell_at r j \<noteq> None) (rows df)))
                     [0..<length (columns df)]"
    using d by (simp add: column_def index_of_nth count_present_def filter_map comp_def del: not_None_eq)
  finally show ?thesis
    using column_counts_by_row [OF l] by (simp add: present_cells_def)
qed

lemma sum_row_lengths:
  "list_all (\<lambda>r. length r = n) rs \<Longrightarrow> sum_list (map length rs) = length rs * n"
  by (induction rs) simp_all

lemma present_plus_missing:
  assumes "wf_dataframe df"
  shows "present_cells df + missing_cells df = length (rows df) * length (columns df)"
proof -
  have l: "list_all (\<lambda>r. length r = length (columns df)) (rows df)"
    using assms by (simp add: wf_dataframe_def)
  have row: "length (filter (\<lambda>v. v \<noteq> None) r) + length (filter (\<lambda>v. v = None) r) = length r"
    for r :: "cell option list"
    using sum_length_filter_compl [of "\<lambda>v. v \<noteq> None" r] by simp
  have "present_cells df + missing_cells df =
        sum_list (map (\<lambda>r. length (filter (\<lambda>v. v \<noteq> None) r) + length (filter (\<lambda>v. v = None) r)) (rows df))"
    unfolding present_cells_def missing_cells_def
    by (simp only: sum_list_addf)
  also have "\<dots> = sum_list (map length (rows df))"
    by (simp only: row)
  finally show ?thesis
    using sum_row_lengths [OF l] by simp
qed

text \<open>
  Claim C6. The overall completeness is the number of cells that are not missing over the
  number of all cells, times 100: for a dataset of \<open>R\<close> rows and \<open>C\<close> columns with at
  least one cell it is 100 when no cell is missing and \<open>(R * C - 1) / (R * C) * 100\<close>
  when exactly one is.
\<close>

theorem completeness_ratio:
  assumes "wf_dataframe df" and "0 < length (rows df) * length (columns df)"
  shows "completeness_metrics.overall_completeness (calculate_completeness df) =
           Some (Fin (of_nat (present_cells df) /
                      of_nat (length (rows df) * length (columns df)) * 100)) \<and>
         present_cells df + missing_cells df = length (rows df) * length (columns df) \<and>
         (missing_cells df = 0 \<longrightarrow>
            completeness_metrics.overall_completeness (calculate_completeness df) = Some (Fin 100)) \<and>
         (missing_cells df = 1 \<longrightarrow>
            completeness_metrics.overall_completeness (calculate_completeness df) =
              Some (Fin ((of_nat (length (rows df) * length (columns df)) - 1) /
                         of_nat (length (rows df) * length (columns df)) * 100)))"
proof -
  define n where "n = length (rows df) * length (columns df)"
  have pos: "0 < n"
    using assms(2) by (simp add: n_def)
  have sum: "present_cells df + missing_cells df = n"
    using present_plus_missing [OF assms(1)] by (simp add: n_def)
  have ov: "completeness_metrics.overall_completeness (calculate_completeness df) =
      Some (Fin (of_nat (present_cells df) / of_nat n * 100))"
    using pos by (simp add: calculate_completeness_def Let_def non_null_cells_eq [OF assms(1)] n_def)
  have full: "completeness_metrics.overall_completeness (calculate_completeness df) = Some (Fin 100)"
    if "missing_cells df = 0"
  proof -
    have "present_cells df = n"
      using sum that by simp
    then show ?thesis
      using ov pos by simp
  qed
  have one: "completeness_metrics.overall_completeness (calculate_completeness df) =
      Some (Fin ((of_nat n - 1) / of_nat n * 100))"
    if "missing_cells df = 1"
  proof -
    have "present_cells df = n - 1"
      using sum that by simp
    moreover have "(of_nat (n - 1) :: rat) = of_nat n - 1"
      using pos by (simp add: of_nat_diff)
    ultimately show ?thesis
      using ov by simp
  qed
  show ?thesis
    using ov sum full one unfolding n_def by blast
qed

text \<open>
  A dataset of two rows and two columns with one missing cell is complete to 75 per cent.
\<close>

theorem completeness_ratio_example:
  "completeness_metrics.overall_completeness (calculate_completeness
     \<lparr>columns = [''state'', ''total''],
      rows = [[Some (Str ''A''), Some (Num 60)], [Some (Str ''B''), None]]\<rparr>) = Some (Fin 75)"
proof -
  let ?df = "\<lparr>columns = [''state'', ''total''],
      rows = [[Some (Str ''A''), Some (Num 60)], [Some (Str ''B''), None]]\<rparr>"
  have wf: "wf_dataframe ?df"
    by (simp add: wf_dataframe_def)
  have size: "0 < length (rows ?df) * length (columns ?df)"
    by simp
  have missing: "missing_cells ?df = 1"
    by (simp add: missing_cells_def)
  from completeness_ratio [OF wf size] missing show ?thesis
    by simp
qed

subsection \<open>Sums of squared shares\<close>





subsection \<open>Age diversity\<close>







subsection \<open>Sums of finite numbers\<close>




subsection \<open>Grouping does not depend on the order of the rows\<close>









subsection \<open>The concentration index\<close>







subsection \<open>The end-to-end example\<close>

text \<open>
  Claim C1. For the states A, B and C with the totals 60, 30 and 10 the percentage shares
  are 60, 30 and 10, their squares 3600, 900 and 100, the Herfindahl-Hirschman index 4600
  and the concentration level High; A is the top state with 60 per cent; and the geographic
  insight made from these metrics, whatever the other metric families are, says in its
  message that A dominates with 60.0%.
\<close>

theorem concentration_example:
  "state_shares (groupby_sum (key_value_rows example_enrollment ''state'' ''total'')) =
     [Fin 60, Fin 30, Fin 10] \<and>
   map (\<lambda>s. xmul s s)
     (state_shares (groupby_sum (key_value_rows example_enrollment ''state'' ''total''))) =
     [Fin 3600, Fin 900, Fin 100] \<and>
   herfindahl_index (calculate_concentration example_enrollment) = Some (Fin 4600) \<and>
   concentration_level (calculate_concentration example_enrollment) = Some ''High'' \<and>
   top_state (calculate_concentration example_enrollment) = Some (Str ''A'') \<and>
   top_state_percentage (calculate_concentration example_enrollment) = Some (Fin 60) \<and>
   insight_get (generate_geographic_insight
        (r\<lparr>geographic_metrics := Some (calculate_concentration example_enrollment)\<rparr>))
      ''title'' = Some ''HIGH CONCENTRATION - Unbalanced Distribution'' \<and>
   insight_get (generate_geographic_insight
        (r\<lparr>geographic_metrics := Some (calculate_concentration example_enrollment)\<rparr>))
      ''message'' =
     Some (''A dominates with 60.0% of all enrollments. '' @
           ''The enrollment is heavily concentrated in one region. This means most of the '' @
           ''users are from a specific area.'')"
proof -
  have shares: "state_shares (groupby_sum (key_value_rows example_enrollment ''state'' ''total'')) =
      [Fin 60, Fin 30, Fin 10]"
    by code_simp
  have squares: "map (\<lambda>s. xmul s s) [Fin 60, Fin 30, Fin 10] = [Fin 3600, Fin 900, Fin 100]"
    by simp
  have geo: "calculate_concentration example_enrollment =
      \<lparr>herfindahl_index = Some (Fin 4600), gini_coefficient = Some (Fin (1 / 3)),
       top_state = Some (Str ''A''), top_state_percentage = Some (Fin 60),
       top_5_states_share = Some (Fin 100), top_10_states_share = Some (Fin 100),
       num_states = Some 3, concentration_level = Some ''High''\<rparr>"
    by code_simp
  have "fmt_fixed 1 (Fin 60) = ''60.0''"
    by code_simp
  then have pct: "fmt_fixed (Suc 0) (Fin 60) = ''60.0''"
    by simp
  have title: "insight_get (generate_geographic_insight
        (r\<lparr>geographic_metrics := Some (calculate_concentration example_enrollment)\<rparr>))
      ''title'' = Some ''HIGH CONCENTRATION - Unbalanced Distribution''"
    by (simp add: geo generate_geographic_insight_def Let_def py_get_def xgt_def insight_get_def)
  have message: "insight_get (generate_geographic_insight
        (r\<lparr>geographic_metrics := Some (calculate_concentration example_enrollment)\<rparr>))
      ''message'' =
     Some (''A dominates with 60.0% of all enrollments. '' @
           ''The enrollment is heavily concentrated in one region. This means most of the '' @
           ''users are from a specific area.'')"
    by (simp add: geo generate_geographic_insight_def Let_def py_get_def xgt_def insight_get_def
        py_str_def pct)
  show ?thesis
    unfolding shares squares using title message by (simp add: geo)
qed

subsection \<open>Growth and trend\<close>








end
